theory Spec2Isabelle
  imports Main "HOL-Library.State_Monad"
begin

section \<open>The sidebar button component (SidebarButton.vue)\<close>

text \<open>
  The component is a template over five props and an options object that declares them.
  The template is embedded as the function \<open>render\<close> from the values of the props to the
  virtual node the template describes; the options object as \<open>initProps\<close> (the default of
  \<open>activeView\<close>) and \<open>assertProps\<close> (the validator of \<open>type\<close>). To say what the
  component changes, the template and its click listener are embedded once more as
  computations on the state of the page: the arrays by reference, the prop slots, the events
  emitted and the addresses followed.
\<close>

subsection \<open>Strings and arrays of the host language\<close>

text \<open>
  A string is a list of code units. The model covers the code units U+0000 to U+00FF, the
  values of a HOL \<open>char\<close>. On this range \<open>String.prototype.toLowerCase\<close> adds 32 to the
  letters A to Z (65 to 90) and to the letters U+00C0 to U+00DE (192 to 222) apart from the
  multiplication sign U+00D7 (215), and leaves every other unit as it is.
\<close>

definition lower_unit :: "char \<Rightarrow> char" where
  "lower_unit c =
     (let n = (of_char c :: nat)
      in if (65 \<le> n \<and> n \<le> 90) \<or> (192 \<le> n \<and> n \<le> 222 \<and> n \<noteq> 215)
         then char_of (n + 32) else c)"

definition toLowerCase :: "string \<Rightarrow> string" where
  "toLowerCase s = map lower_unit s"

text \<open>
  \<open>Array.prototype.includes\<close>: a scan from the first index that answers whether some
  element equals the searched value. (On strings SameValueZero is equality.)
\<close>

primrec array_includes :: "'a list \<Rightarrow> 'a \<Rightarrow> bool" where
  "array_includes [] x = False"
| "array_includes (y # ys) x = (y = x \<or> array_includes ys x)"

subsection \<open>Props\<close>

text \<open>
  The props as the template reads them, at their declared types (lines 27 to 51):
  \<open>activeView\<close> an array, here of strings, the other four strings. The props \<open>id\<close> and
  \<open>type\<close> are named \<open>id_prop\<close> and \<open>type_prop\<close>.
\<close>

record props =
  activeView :: "string list"
  tooltip :: string
  id_prop :: string
  icon :: string
  type_prop :: string

text \<open>
  What the parent passes. Only \<open>activeView\<close> is optional (it declares a default and is
  not required); \<open>None\<close> is the prop left out.
\<close>

record propsData =
  activeView_passed :: "string list option"
  tooltip_passed :: string
  id_passed :: string
  icon_passed :: string
  type_passed :: string

text \<open>Line 30: \<open>default: () => []\<close>.\<close>

definition activeView_default :: "string list" where
  "activeView_default = []"

text \<open>Lines 47 to 49: \<open>validator: (value) => ["Mode", "Metrics", "Refresh"].includes(value)\<close>.\<close>

definition validator :: "string \<Rightarrow> bool" where
  "validator v = array_includes [''Mode'', ''Metrics'', ''Refresh''] v"

text \<open>
  A prop that is left out takes its default. A validator that answers false is reported by
  the framework as a warning naming the prop (in a development build); the value is kept
  and the component is created all the same.
\<close>

datatype warning = Invalid_prop string

definition initProps :: "propsData \<Rightarrow> props" where
  "initProps d =
     \<lparr> activeView = (case activeView_passed d of None \<Rightarrow> activeView_default | Some xs \<Rightarrow> xs),
       tooltip = tooltip_passed d,
       id_prop = id_passed d,
       icon = icon_passed d,
       type_prop = type_passed d \<rparr>"

definition assertProps :: "props \<Rightarrow> warning list" where
  "assertProps p = (if validator (type_prop p) then [] else [Invalid_prop ''type''])"

subsection \<open>The template\<close>

text \<open>
  A virtual node: tag, static class, the array bound to \<open>:class\<close>, the attributes (a bound
  attribute whose value is \<open>null\<close> is \<open>None\<close> and is not rendered), the listeners and the
  children. A listener is the action its statement performs: a call of \<open>$emit\<close> with an
  event name and one argument, which is the only statement of this template, or the call of
  \<open>preventDefault\<close> that the listener modifier \<open>.prevent\<close> stands for, which this template
  does not use.
\<close>

datatype action = Emit string string | Prevent_default

datatype vnode =
  VNode (tag: string) (staticClass: "string option") (class_binding: "string list")
        (attrs: "(string \<times> string option) list") (listeners: "(string \<times> action) list")
        (children: "vnode list")

text \<open>
  Lines 2 to 16. The anchor has one child element: lines 9 to 14 are an HTML comment, for
  which no element is created, and line 15 is the \<open>svgicon\<close> of the \<open>icon\<close> prop.
\<close>

definition render :: "props \<Rightarrow> vnode" where
  "render p =
     VNode ''a'' (Some ''sidebar-button'')
       [toLowerCase (type_prop p),
        if array_includes (activeView p) (id_prop p) then ''active'' else '''']
       [(''href'', Some ''#''),
        (''data-title'',
           if \<not> array_includes (activeView p) (id_prop p) then Some (tooltip p) else None)]
       [(''click'', Emit ''button-action'' (id_prop p))]
       [VNode ''svgicon'' None [] [(''name'', Some (icon p))] [] []]"

text \<open>The value of a rendered attribute; \<open>None\<close> when the element does not carry it.\<close>

definition attr :: "vnode \<Rightarrow> string \<Rightarrow> string option" where
  "attr v k = (case map_of (attrs v) k of Some (Some s) \<Rightarrow> Some s | _ \<Rightarrow> None)"

text \<open>The classes of an element as the template gives them: the static one, then the bound array.\<close>

definition class_list :: "vnode \<Rightarrow> string list" where
  "class_list v = (case staticClass v of None \<Rightarrow> [] | Some c \<Rightarrow> [c]) @ class_binding v"

text \<open>The children that carry the class of the help indicator of lines 9 to 14.\<close>

definition help_icons :: "vnode \<Rightarrow> vnode list" where
  "help_icons v = filter (\<lambda>c. staticClass c = Some ''sidebar-button__icon-help'') (children v)"

subsection \<open>The component instance\<close>

text \<open>
  An instance as it is mounted: the values of its props and the events it has emitted
  (name and payload, oldest first), none at first.
\<close>

record component =
  props_of :: props
  emitted :: "(string \<times> string) list"

definition mount :: "propsData \<Rightarrow> warning list \<times> component" where
  "mount d = (assertProps (initProps d), \<lparr> props_of = initProps d, emitted = [] \<rparr>)"

text \<open>A render pass evaluates the template on the props of the instance.\<close>

definition render_pass :: "component \<Rightarrow> vnode \<times> component" where
  "render_pass vm = (render (props_of vm), vm)"

subsection \<open>The component in the page\<close>

text \<open>
  Arrays are objects: the \<open>activeView\<close> prop holds a reference to an array that the parent
  owns, and a method called on it could change it for the parent too. To say what the
  component changes, the template and its listener are written a second time as
  computations on the state they run in: the arrays by reference, the prop slots of the
  component (the reference of \<open>activeView\<close> and the four strings), the events emitted to
  the parent so far and the addresses the browser was sent to, oldest first.
\<close>

type_synonym ref = nat

record slots =
  activeView_ref :: ref
  tooltip_val :: string
  id_val :: string
  icon_val :: string
  type_val :: string

record world =
  arrays :: "ref \<Rightarrow> string list"
  this_props :: slots
  outbox :: "(string \<times> string) list"
  navigated :: "string list"

text \<open>A store in which every reference holds the empty array.\<close>

definition no_arrays :: "ref \<Rightarrow> string list" where
  "no_arrays r = []"

text \<open>The values of the props in a state: the slots, with the reference followed.\<close>

definition props_in :: "world \<Rightarrow> props" where
  "props_in w =
     \<lparr> activeView = arrays w (activeView_ref (this_props w)),
       tooltip = tooltip_val (this_props w),
       id_prop = id_val (this_props w),
       icon = icon_val (this_props w),
       type_prop = type_val (this_props w) \<rparr>"

text \<open>
  The operations the template and its listener perform: reading a prop slot, calling
  \<open>includes\<close> on the array behind a reference, calling \<open>$emit\<close>, which hands the event to
  the parent, and, for the browser, following an address.
\<close>

definition read_prop :: "(slots \<Rightarrow> 'a) \<Rightarrow> (world, 'a) state" where
  "read_prop slot = State (\<lambda>w. (slot (this_props w), w))"

definition includes_op :: "ref \<Rightarrow> string \<Rightarrow> (world, bool) state" where
  "includes_op r x = State (\<lambda>w. (array_includes (arrays w r) x, w))"

definition emit_op :: "string \<Rightarrow> string \<Rightarrow> (world, unit) state" where
  "emit_op name payload = State (\<lambda>w. ((), w\<lparr> outbox := outbox w @ [(name, payload)] \<rparr>))"

definition navigate_op :: "string \<Rightarrow> (world, unit) state" where
  "navigate_op url = State (\<lambda>w. ((), w\<lparr> navigated := navigated w @ [url] \<rparr>))"

text \<open>
  Lines 2 to 16 again, expression by expression in the order of the template: line 4 reads
  \<open>type\<close>, \<open>activeView\<close> and \<open>id\<close> and calls \<open>includes\<close>; line 6 reads \<open>activeView\<close> and \<open>id\<close>,
  calls \<open>includes\<close> once more and reads \<open>tooltip\<close> only when the answer is false; line 7
  reads \<open>id\<close>; line 15 reads \<open>icon\<close>.
\<close>

definition render_m :: "(world, vnode) state" where
  "render_m = do {
     t \<leftarrow> read_prop type_val;
     av \<leftarrow> read_prop activeView_ref;
     i \<leftarrow> read_prop id_val;
     active \<leftarrow> includes_op av i;
     av' \<leftarrow> read_prop activeView_ref;
     i' \<leftarrow> read_prop id_val;
     active' \<leftarrow> includes_op av' i';
     title \<leftarrow> (if \<not> active' then do { tt \<leftarrow> read_prop tooltip_val; State_Monad.return (Some tt) }
               else State_Monad.return None);
     payload \<leftarrow> read_prop id_val;
     name \<leftarrow> read_prop icon_val;
     State_Monad.return
       (VNode ''a'' (Some ''sidebar-button'')
          [toLowerCase t, if active then ''active'' else '''']
          [(''href'', Some ''#''), (''data-title'', title)]
          [(''click'', Emit ''button-action'' payload)]
          [VNode ''svgicon'' None [] [(''name'', Some name)] [] []])
   }"

text \<open>
  An event on the rendered anchor. The listeners registered under the name of the event
  run in order; each answers whether it has prevented the default action of the event.
  Unless one has, the default action follows: for a click on an anchor that carries an
  \<open>href\<close>, the browser follows that address. (The default actions of other events do not
  touch the state above and are left out.)
\<close>

definition handlers :: "string \<Rightarrow> vnode \<Rightarrow> action list" where
  "handlers ev v = map snd (filter (\<lambda>h. fst h = ev) (listeners v))"

primrec run_action :: "action \<Rightarrow> (world, bool) state" where
  "run_action (Emit name payload) = do { emit_op name payload; State_Monad.return False }"
| "run_action Prevent_default = State_Monad.return True"

primrec run_listeners :: "action list \<Rightarrow> (world, bool) state" where
  "run_listeners [] = State_Monad.return False"
| "run_listeners (a # as) =
     do { p \<leftarrow> run_action a; q \<leftarrow> run_listeners as; State_Monad.return (p \<or> q) }"

definition default_action :: "string \<Rightarrow> vnode \<Rightarrow> (world, unit) state" where
  "default_action ev v =
     (if ev = ''click'' \<and> tag v = ''a''
      then (case attr v ''href'' of Some url \<Rightarrow> navigate_op url | None \<Rightarrow> State_Monad.return ())
      else State_Monad.return ())"

definition dom_event :: "string \<Rightarrow> (world, unit) state" where
  "dom_event ev = do {
     v \<leftarrow> render_m;
     prevented \<leftarrow> run_listeners (handlers ev v);
     if prevented then State_Monad.return () else default_action ev v
   }"

text \<open>The state a computation leaves, and the value it returns.\<close>

definition after :: "('s, 'a) state \<Rightarrow> 's \<Rightarrow> 's" where
  "after m w = snd (run_state m w)"

definition result :: "('s, 'a) state \<Rightarrow> 's \<Rightarrow> 'a" where
  "result m w = fst (run_state m w)"

section \<open>Properties\<close>

subsection \<open>Auxiliary facts\<close>

lemma array_includes_set: "array_includes xs x = (x \<in> set xs)"
  by (induction xs) auto

lemma validator_iff: "validator v = (v = ''Mode'' \<or> v = ''Metrics'' \<or> v = ''Refresh'')"
  by (auto simp: validator_def)

lemma toLowerCase_Mode: "toLowerCase ''Mode'' = ''mode''"
  by code_simp

lemma toLowerCase_Metrics: "toLowerCase ''Metrics'' = ''metrics''"
  by code_simp

lemma toLowerCase_Refresh: "toLowerCase ''Refresh'' = ''refresh''"
  by code_simp

lemma toLowerCase_Bogus: "toLowerCase ''Bogus'' = ''bogus''"
  by code_simp

lemma toLowerCase_Active: "toLowerCase ''Active'' = ''active''"
  by code_simp

lemma class_binding_render:
  "class_binding (render p) =
     [toLowerCase (type_prop p), if id_prop p \<in> set (activeView p) then ''active'' else '''']"
  by (simp add: render_def array_includes_set)

lemma data_title_render:
  "attr (render p) ''data-title'' =
     (if id_prop p \<in> set (activeView p) then None else Some (tooltip p))"
  by (simp add: render_def attr_def array_includes_set)

lemma run_render_m: "run_state render_m w = (render (props_in w), w)"
  by (simp add: render_m_def read_prop_def includes_op_def render_def props_in_def)

lemma after_render_m: "after render_m w = w"
  by (simp add: after_def run_render_m)

lemma result_render_m: "result render_m w = render (props_in w)"
  by (simp add: result_def run_render_m)

lemma after_click:
  "after (dom_event ''click'') w =
     w\<lparr> outbox := outbox w @ [(''button-action'', id_val (this_props w))],
        navigated := navigated w @ [''#''] \<rparr>"
  by (simp add: after_def dom_event_def run_render_m handlers_def render_def props_in_def
        emit_op_def default_action_def attr_def navigate_op_def)

lemma after_other_event: "ev \<noteq> ''click'' \<Longrightarrow> after (dom_event ev) w = w"
  by (auto simp: after_def dom_event_def run_render_m handlers_def render_def
        default_action_def)

subsection \<open>The tooltip hint\<close>

text \<open>
  C3. For every props value the anchor carries the attribute \<open>data-title\<close> if and only if
  \<open>activeView\<close> does not contain \<open>id\<close>; when it carries it the value is the tooltip text, and
  when \<open>activeView\<close> contains \<open>id\<close> the bound value is null and the attribute is absent.
\<close>

theorem tooltip_hint_iff_inactive:
  "(attr (render p) ''data-title'' \<noteq> None) = (id_prop p \<notin> set (activeView p))
   \<and> (id_prop p \<notin> set (activeView p) \<longrightarrow> attr (render p) ''data-title'' = Some (tooltip p))
   \<and> (id_prop p \<in> set (activeView p) \<longrightarrow> attr (render p) ''data-title'' = None
        \<and> map_of (attrs (render p)) ''data-title'' = Some None)"
  by (simp add: render_def attr_def array_includes_set)

theorem tooltip_hint_iff_inactive_witness:
  "attr (render \<lparr> activeView = [], tooltip = ''Refresh'', id_prop = ''refresh'',
                  icon = ''refresh'', type_prop = ''Refresh'' \<rparr>) ''data-title'' = Some ''Refresh''
   \<and> attr (render \<lparr> activeView = [''annotate'', ''metrics''], tooltip = ''Annotate'',
                    id_prop = ''annotate'', icon = ''annotate-view'', type_prop = ''Mode'' \<rparr>)
        ''data-title'' = None"
  using tooltip_hint_iff_inactive
          [of "\<lparr> activeView = [], tooltip = ''Refresh'', id_prop = ''refresh'',
                 icon = ''refresh'', type_prop = ''Refresh'' \<rparr>"]
        tooltip_hint_iff_inactive
          [of "\<lparr> activeView = [''annotate'', ''metrics''], tooltip = ''Annotate'',
                 id_prop = ''annotate'', icon = ''annotate-view'', type_prop = ''Mode'' \<rparr>"]
  by simp

subsection \<open>The class list\<close>

text \<open>
  C1, as stated, fails: the first bound entry is the lowercased \<open>type\<close>, and a type that
  the validator rejects is still rendered, so the type \<open>Active\<close> puts \<open>active\<close> into the
  class list of a button whose \<open>id\<close> is not in \<open>activeView\<close>.
\<close>

theorem active_class_without_membership:
  "\<not> ((''active'' \<in> set (class_binding (render
          \<lparr> activeView = [], tooltip = ''Explore'', id_prop = ''explore'',
            icon = ''explore-view'', type_prop = ''Active'' \<rparr>)))
       = (id_prop \<lparr> activeView = [], tooltip = ''Explore'', id_prop = ''explore'',
                    icon = ''explore-view'', type_prop = ''Active'' \<rparr>
          \<in> set (activeView \<lparr> activeView = [], tooltip = ''Explore'', id_prop = ''explore'',
                                icon = ''explore-view'', type_prop = ''Active'' \<rparr>)))"
  by (simp add: class_binding_render toLowerCase_Active)

text \<open>
  C1, amended. For every props value whose lowercased \<open>type\<close> is not \<open>active\<close>, and so for
  every \<open>type\<close> the validator accepts, the bound class list (and the full class list)
  contains \<open>active\<close> if and only if \<open>activeView\<close> contains \<open>id\<close>. For every props value
  the second bound entry is \<open>active\<close> if and only if \<open>activeView\<close> contains \<open>id\<close>.
\<close>

theorem active_class_iff_member:
  "(toLowerCase (type_prop p) \<noteq> ''active'' \<longrightarrow>
      (''active'' \<in> set (class_binding (render p))) = (id_prop p \<in> set (activeView p))
      \<and> (''active'' \<in> set (class_list (render p))) = (id_prop p \<in> set (activeView p)))
   \<and> (validator (type_prop p) \<longrightarrow>
      (''active'' \<in> set (class_binding (render p))) = (id_prop p \<in> set (activeView p)))
   \<and> (class_binding (render p) ! 1 = ''active'') = (id_prop p \<in> set (activeView p))"
proof -
  have valid: "toLowerCase (type_prop p) \<noteq> ''active''" if "validator (type_prop p)"
    using that
    by (auto simp: validator_iff toLowerCase_Mode toLowerCase_Metrics toLowerCase_Refresh)
  have binding: "(''active'' \<in> set (class_binding (render p))) = (id_prop p \<in> set (activeView p))"
    if "toLowerCase (type_prop p) \<noteq> ''active''"
    using that by (auto simp: class_binding_render)
  have full: "(''active'' \<in> set (class_list (render p))) = (''active'' \<in> set (class_binding (render p)))"
    by (simp add: class_list_def render_def)
  have second: "(class_binding (render p) ! 1 = ''active'') = (id_prop p \<in> set (activeView p))"
    by (simp add: class_binding_render)
  from valid binding full second show ?thesis by blast
qed

theorem active_class_iff_member_witness:
  "toLowerCase ''Mode'' \<noteq> ''active'' \<and> validator ''Mode''
   \<and> ''active'' \<in> set (class_binding (render
         \<lparr> activeView = [''annotate'', ''metrics''], tooltip = ''Annotate'',
           id_prop = ''annotate'', icon = ''annotate-view'', type_prop = ''Mode'' \<rparr>))
   \<and> ''active'' \<notin> set (class_binding (render
         \<lparr> activeView = [''explore'', ''metrics''], tooltip = ''Annotate'',
           id_prop = ''annotate'', icon = ''annotate-view'', type_prop = ''Mode'' \<rparr>))"
proof -
  have h1: "toLowerCase ''Mode'' \<noteq> ''active''"
    by (simp add: toLowerCase_Mode)
  have h2: "validator ''Mode''"
    by (simp add: validator_def)
  show ?thesis
    using h1 h2
      active_class_iff_member
        [of "\<lparr> activeView = [''annotate'', ''metrics''], tooltip = ''Annotate'',
               id_prop = ''annotate'', icon = ''annotate-view'', type_prop = ''Mode'' \<rparr>"]
      active_class_iff_member
        [of "\<lparr> activeView = [''explore'', ''metrics''], tooltip = ''Annotate'',
               id_prop = ''annotate'', icon = ''annotate-view'', type_prop = ''Mode'' \<rparr>"]
    by simp
qed

text \<open>
  C2. For every props value whose \<open>type\<close> is one of \<open>Mode\<close>, \<open>Metrics\<close>, \<open>Refresh\<close>, the
  array bound to the class of the anchor is the lowercased \<open>type\<close> followed by \<open>active\<close>
  when \<open>activeView\<close> contains \<open>id\<close> and by the empty string otherwise; the lowercased
  \<open>type\<close> is \<open>mode\<close>, \<open>metrics\<close> or \<open>refresh\<close> and occurs in the array exactly once.
\<close>

theorem class_binding_of_valid_type:
  assumes "type_prop p \<in> {''Mode'', ''Metrics'', ''Refresh''}"
  shows "class_binding (render p) =
           [toLowerCase (type_prop p), if id_prop p \<in> set (activeView p) then ''active'' else '''']
         \<and> toLowerCase (type_prop p) \<in> {''mode'', ''metrics'', ''refresh''}
         \<and> count_list (class_binding (render p)) (toLowerCase (type_prop p)) = 1"
proof -
  from assms have lower: "toLowerCase (type_prop p) \<in> {''mode'', ''metrics'', ''refresh''}"
    by (auto simp: toLowerCase_Mode toLowerCase_Metrics toLowerCase_Refresh)
  then have once: "count_list (class_binding (render p)) (toLowerCase (type_prop p)) = 1"
    by (auto simp: class_binding_render)
  from lower once show ?thesis
    by (simp add: class_binding_render)
qed

theorem class_binding_of_valid_type_witness:
  "''Mode'' \<in> {''Mode'', ''Metrics'', ''Refresh''}
   \<and> class_binding (render
         \<lparr> activeView = [''annotate'', ''metrics''], tooltip = ''Annotate'',
           id_prop = ''annotate'', icon = ''annotate-view'', type_prop = ''Mode'' \<rparr>)
       = [''mode'', ''active'']"
proof -
  have h: "type_prop \<lparr> activeView = [''annotate'', ''metrics''], tooltip = ''Annotate'',
                       id_prop = ''annotate'', icon = ''annotate-view'', type_prop = ''Mode'' \<rparr>
           \<in> {''Mode'', ''Metrics'', ''Refresh''}"
    by simp
  show ?thesis
    using class_binding_of_valid_type [OF h]
    by (simp add: toLowerCase_Mode)
qed

text \<open>
  C10. For every props value, whatever the \<open>type\<close> and whether or not \<open>activeView\<close>
  contains \<open>id\<close>, the anchor carries the static class \<open>sidebar-button\<close> before the two bound
  entries, so that the class list the template gives has three entries (the empty string of
  an inactive button counted as one); its \<open>href\<close> is \<open>#\<close>; and its one child is the
  \<open>svgicon\<close> named by the \<open>icon\<close> prop.
\<close>

theorem anchor_static_parts:
  "tag (render p) = ''a''
   \<and> staticClass (render p) = Some ''sidebar-button''
   \<and> class_list (render p) =
       [''sidebar-button'', toLowerCase (type_prop p),
        if id_prop p \<in> set (activeView p) then ''active'' else '''']
   \<and> length (class_list (render p)) = 3
   \<and> attr (render p) ''href'' = Some ''#''
   \<and> children (render p) = [VNode ''svgicon'' None [] [(''name'', Some (icon p))] [] []]"
  by (simp add: render_def class_list_def attr_def array_includes_set)

subsection \<open>The help indicator\<close>

text \<open>
  C6, as stated, fails: for an active button of type \<open>Mode\<close>, where the indicator would be
  shown, the rendered anchor has no child carrying the class of the help indicator.
\<close>

theorem help_icon_not_rendered_when_active:
  "help_icons (render
      \<lparr> activeView = [''annotate'', ''metrics''], tooltip = ''Annotate'',
        id_prop = ''annotate'', icon = ''annotate-view'', type_prop = ''Mode'' \<rparr>) = []"
  by (simp add: help_icons_def render_def)

text \<open>
  C6, amended. For every props value the rendered anchor contains no help indicator: its
  children are the icon glyph of the \<open>icon\<close> prop alone. The indicator, with its gates on
  \<open>type\<close> and on the membership of \<open>id\<close> in \<open>activeView\<close>, exists only inside a comment of
  the template.
\<close>

theorem help_icon_never_rendered:
  "help_icons (render p) = []
   \<and> children (render p) = [VNode ''svgicon'' None [] [(''name'', Some (icon p))] [] []]"
  by (simp add: help_icons_def render_def)

subsection \<open>The click\<close>

text \<open>
  C4, as stated, fails in its last part: the emission is not the only thing a click on the
  rendered control brings about. The anchor carries \<open>href\<close> \<open>#\<close> and its listener does
  not prevent the default action, so the state after a click is not the state before it
  with the one event added: the browser has followed \<open>#\<close> as well.
\<close>

theorem click_also_follows_href:
  "after (dom_event ''click'')
     \<lparr> arrays = no_arrays(0 := [''annotate'', ''metrics'']),
       this_props = \<lparr> activeView_ref = 0, tooltip_val = ''Annotate'', id_val = ''annotate'',
                      icon_val = ''annotate-view'', type_val = ''Mode'' \<rparr>,
       outbox = [], navigated = [] \<rparr>
   \<noteq> \<lparr> arrays = no_arrays(0 := [''annotate'', ''metrics'']),
       this_props = \<lparr> activeView_ref = 0, tooltip_val = ''Annotate'', id_val = ''annotate'',
                      icon_val = ''annotate-view'', type_val = ''Mode'' \<rparr>,
       outbox = [] @ [(''button-action'', ''annotate'')], navigated = [] \<rparr>"
  by (simp add: after_click)

text \<open>
  C4, amended. For every props value, whether or not \<open>activeView\<close> contains \<open>id\<close>, one
  click on the rendered control emits exactly one event, named \<open>button-action\<close>, whose
  payload is the \<open>id\<close> prop. The emission is the only effect of the component's own code:
  \<open>click\<close> is the only listener the anchor registers, and an event of any other name
  emits nothing and changes nothing. The default action of the click is not prevented, so
  besides the emission the browser follows the \<open>href\<close> \<open>#\<close> of the anchor; nothing else
  changes.
\<close>

theorem click_emits_button_action:
  "listeners (result render_m w) = [(''click'', Emit ''button-action'' (id_prop (props_in w)))]
   \<and> after (dom_event ''click'') w =
       w\<lparr> outbox := outbox w @ [(''button-action'', id_prop (props_in w))],
          navigated := navigated w @ [''#''] \<rparr>
   \<and> outbox (after (dom_event ''click'') w) =
       outbox w @ [(''button-action'', id_prop (props_in w))]
   \<and> length (outbox (after (dom_event ''click'') w)) = Suc (length (outbox w))
   \<and> (ev \<noteq> ''click'' \<longrightarrow> after (dom_event ev) w = w)"
  by (simp add: after_click after_other_event result_render_m render_def props_in_def)

theorem click_emits_button_action_witness:
  "''mouseover'' \<noteq> ''click''
   \<and> after (dom_event ''mouseover'')
       \<lparr> arrays = no_arrays,
         this_props = \<lparr> activeView_ref = 0, tooltip_val = ''Refresh'', id_val = ''refresh'',
                        icon_val = ''refresh'', type_val = ''Refresh'' \<rparr>,
         outbox = [], navigated = [] \<rparr>
     = \<lparr> arrays = no_arrays,
         this_props = \<lparr> activeView_ref = 0, tooltip_val = ''Refresh'', id_val = ''refresh'',
                        icon_val = ''refresh'', type_val = ''Refresh'' \<rparr>,
         outbox = [], navigated = [] \<rparr>
   \<and> outbox (after (dom_event ''click'')
       \<lparr> arrays = no_arrays,
         this_props = \<lparr> activeView_ref = 0, tooltip_val = ''Refresh'', id_val = ''refresh'',
                        icon_val = ''refresh'', type_val = ''Refresh'' \<rparr>,
         outbox = [], navigated = [] \<rparr>)
     = [(''button-action'', ''refresh'')]"
proof -
  have h: "''mouseover'' \<noteq> ''click''"
    by simp
  show ?thesis
    using h
      click_emits_button_action
        [of "\<lparr> arrays = no_arrays,
               this_props = \<lparr> activeView_ref = 0, tooltip_val = ''Refresh'',
                              id_val = ''refresh'', icon_val = ''refresh'',
                              type_val = ''Refresh'' \<rparr>,
               outbox = [], navigated = [] \<rparr>"
            "''mouseover''"]
    by (simp add: props_in_def)
qed

text \<open>
  C8. Neither a render pass nor the click listener changes a prop. A render pass leaves
  the whole state as it was: the prop slots (\<open>activeView\<close>, \<open>id\<close>, \<open>icon\<close>, \<open>tooltip\<close>,
  \<open>type\<close>) and every array, the one behind \<open>activeView\<close> among them. After an event of any
  name, a click among them, the slots and the arrays are the same as before, and so are
  the values of the props. The rendered output is a function of the values of the props
  alone: it is \<open>render\<close> of those values, so two states that give the props the same values
  render the same node, whatever the references, the other arrays and the events emitted.
\<close>

theorem props_never_mutated:
  "after render_m w = w
   \<and> result render_m w = render (props_in w)
   \<and> this_props (after (dom_event ev) w) = this_props w
   \<and> arrays (after (dom_event ev) w) = arrays w
   \<and> props_in (after (dom_event ''click'') w) = props_in w
   \<and> result render_m (after (dom_event ''click'') w) = result render_m w
   \<and> (props_in w = props_in w' \<longrightarrow> result render_m w = result render_m w')"
proof -
  have frame: "this_props (after (dom_event ev) w) = this_props w
               \<and> arrays (after (dom_event ev) w) = arrays w"
    by (cases "ev = ''click''") (simp_all add: after_click after_other_event)
  have click: "props_in (after (dom_event ''click'') w) = props_in w"
    by (simp add: after_click props_in_def)
  from frame click show ?thesis
    by (simp add: after_render_m result_render_m)
qed

theorem props_never_mutated_witness:
  "props_in \<lparr> arrays = no_arrays(0 := [''annotate'', ''metrics'']),
              this_props = \<lparr> activeView_ref = 0, tooltip_val = ''Annotate'',
                             id_val = ''annotate'', icon_val = ''annotate-view'',
                             type_val = ''Mode'' \<rparr>,
              outbox = [], navigated = [] \<rparr>
     = props_in \<lparr> arrays = no_arrays(0 := [''explore''], 3 := [''annotate'', ''metrics'']),
                  this_props = \<lparr> activeView_ref = 3, tooltip_val = ''Annotate'',
                                 id_val = ''annotate'', icon_val = ''annotate-view'',
                                 type_val = ''Mode'' \<rparr>,
                  outbox = [(''button-action'', ''annotate'')], navigated = [''#''] \<rparr>
   \<and> result render_m
         \<lparr> arrays = no_arrays(0 := [''annotate'', ''metrics'']),
           this_props = \<lparr> activeView_ref = 0, tooltip_val = ''Annotate'',
                          id_val = ''annotate'', icon_val = ''annotate-view'',
                          type_val = ''Mode'' \<rparr>,
           outbox = [], navigated = [] \<rparr>
     = result render_m
         \<lparr> arrays = no_arrays(0 := [''explore''], 3 := [''annotate'', ''metrics'']),
           this_props = \<lparr> activeView_ref = 3, tooltip_val = ''Annotate'',
                          id_val = ''annotate'', icon_val = ''annotate-view'',
                          type_val = ''Mode'' \<rparr>,
           outbox = [(''button-action'', ''annotate'')], navigated = [''#''] \<rparr>
   \<and> arrays (after (dom_event ''click'')
         \<lparr> arrays = no_arrays(0 := [''annotate'', ''metrics'']),
           this_props = \<lparr> activeView_ref = 0, tooltip_val = ''Annotate'',
                          id_val = ''annotate'', icon_val = ''annotate-view'',
                          type_val = ''Mode'' \<rparr>,
           outbox = [], navigated = [] \<rparr>) 0 = [''annotate'', ''metrics'']"
proof -
  have h: "props_in \<lparr> arrays = no_arrays(0 := [''annotate'', ''metrics'']),
              this_props = \<lparr> activeView_ref = 0, tooltip_val = ''Annotate'',
                             id_val = ''annotate'', icon_val = ''annotate-view'',
                             type_val = ''Mode'' \<rparr>,
              outbox = [], navigated = [] \<rparr>
     = props_in \<lparr> arrays = no_arrays(0 := [''explore''], 3 := [''annotate'', ''metrics'']),
                  this_props = \<lparr> activeView_ref = 3, tooltip_val = ''Annotate'',
                                 id_val = ''annotate'', icon_val = ''annotate-view'',
                                 type_val = ''Mode'' \<rparr>,
                  outbox = [(''button-action'', ''annotate'')], navigated = [''#''] \<rparr>"
    by (simp add: props_in_def)
  note t = props_never_mutated
        [of "\<lparr> arrays = no_arrays(0 := [''annotate'', ''metrics'']),
               this_props = \<lparr> activeView_ref = 0, tooltip_val = ''Annotate'',
                              id_val = ''annotate'', icon_val = ''annotate-view'',
                              type_val = ''Mode'' \<rparr>,
               outbox = [], navigated = [] \<rparr>"
            "''click''"
            "\<lparr> arrays = no_arrays(0 := [''explore''], 3 := [''annotate'', ''metrics'']),
               this_props = \<lparr> activeView_ref = 3, tooltip_val = ''Annotate'',
                              id_val = ''annotate'', icon_val = ''annotate-view'',
                              type_val = ''Mode'' \<rparr>,
               outbox = [(''button-action'', ''annotate'')], navigated = [''#''] \<rparr>"]
  from t h have r: "result render_m
            \<lparr> arrays = no_arrays(0 := [''annotate'', ''metrics'']),
               this_props = \<lparr> activeView_ref = 0, tooltip_val = ''Annotate'',
                              id_val = ''annotate'', icon_val = ''annotate-view'',
                              type_val = ''Mode'' \<rparr>,
               outbox = [], navigated = [] \<rparr>
     = result render_m
            \<lparr> arrays = no_arrays(0 := [''explore''], 3 := [''annotate'', ''metrics'']),
               this_props = \<lparr> activeView_ref = 3, tooltip_val = ''Annotate'',
                              id_val = ''annotate'', icon_val = ''annotate-view'',
                              type_val = ''Mode'' \<rparr>,
               outbox = [(''button-action'', ''annotate'')], navigated = [''#''] \<rparr>"
    by blast
  from t have a: "arrays (after (dom_event ''click'')
            \<lparr> arrays = no_arrays(0 := [''annotate'', ''metrics'']),
               this_props = \<lparr> activeView_ref = 0, tooltip_val = ''Annotate'',
                              id_val = ''annotate'', icon_val = ''annotate-view'',
                              type_val = ''Mode'' \<rparr>,
               outbox = [], navigated = [] \<rparr>)
     = arrays
            \<lparr> arrays = no_arrays(0 := [''annotate'', ''metrics'']),
               this_props = \<lparr> activeView_ref = 0, tooltip_val = ''Annotate'',
                              id_val = ''annotate'', icon_val = ''annotate-view'',
                              type_val = ''Mode'' \<rparr>,
               outbox = [], navigated = [] \<rparr>"
    by blast
  have a0: "arrays (after (dom_event ''click'')
            \<lparr> arrays = no_arrays(0 := [''annotate'', ''metrics'']),
               this_props = \<lparr> activeView_ref = 0, tooltip_val = ''Annotate'',
                              id_val = ''annotate'', icon_val = ''annotate-view'',
                              type_val = ''Mode'' \<rparr>,
               outbox = [], navigated = [] \<rparr>) 0 = [''annotate'', ''metrics'']"
    by (simp add: a)
  show ?thesis
    by (rule conjI [OF h conjI [OF r a0]])
qed

subsection \<open>The props\<close>

text \<open>
  C5. The validator of \<open>type\<close> answers true if and only if the value is \<open>Mode\<close>, \<open>Metrics\<close>
  or \<open>Refresh\<close>. For any other string the component is mounted with one warning, which
  names the prop \<open>type\<close>, and is rendered all the same, with the lowercased value as the
  first entry of the bound class list; an accepted value gives no warning.
\<close>

theorem type_validator_warns_and_renders:
  "validator v = (v \<in> {''Mode'', ''Metrics'', ''Refresh''})
   \<and> (\<not> validator (type_passed d) \<longrightarrow>
        fst (mount d) = [Invalid_prop ''type'']
        \<and> hd (class_binding (fst (render_pass (snd (mount d))))) = toLowerCase (type_passed d)
        \<and> toLowerCase (type_passed d) \<in> set (class_list (fst (render_pass (snd (mount d))))))
   \<and> (validator (type_passed d) \<longrightarrow> fst (mount d) = [])"
  by (simp add: validator_iff mount_def assertProps_def initProps_def render_pass_def
        class_binding_render class_list_def render_def)

theorem type_validator_warns_and_renders_witness:
  "\<not> validator ''Bogus''
   \<and> fst (mount \<lparr> activeView_passed = Some [], tooltip_passed = ''Explore'',
                   id_passed = ''explore'', icon_passed = ''explore-view'',
                   type_passed = ''Bogus'' \<rparr>) = [Invalid_prop ''type'']
   \<and> class_binding (fst (render_pass (snd (mount
         \<lparr> activeView_passed = Some [], tooltip_passed = ''Explore'',
           id_passed = ''explore'', icon_passed = ''explore-view'',
           type_passed = ''Bogus'' \<rparr>)))) = [''bogus'', '''']
   \<and> validator ''Metrics''
   \<and> fst (mount \<lparr> activeView_passed = Some [], tooltip_passed = ''Metrics'',
                   id_passed = ''metrics'', icon_passed = ''metrics'',
                   type_passed = ''Metrics'' \<rparr>) = []"
proof -
  have h: "\<not> validator ''Bogus''"
    by (simp add: validator_def)
  have h': "validator ''Metrics''"
    by (simp add: validator_def)
  have binding: "class_binding (fst (render_pass (snd (mount
         \<lparr> activeView_passed = Some [], tooltip_passed = ''Explore'',
           id_passed = ''explore'', icon_passed = ''explore-view'',
           type_passed = ''Bogus'' \<rparr>)))) = [''bogus'', '''']"
    by (simp add: mount_def initProps_def render_pass_def class_binding_render toLowerCase_Bogus)
  show ?thesis
    using h h' binding
      type_validator_warns_and_renders
        [of "''Bogus''"
            "\<lparr> activeView_passed = Some [], tooltip_passed = ''Explore'',
               id_passed = ''explore'', icon_passed = ''explore-view'',
               type_passed = ''Bogus'' \<rparr>"]
      type_validator_warns_and_renders
        [of "''Metrics''"
            "\<lparr> activeView_passed = Some [], tooltip_passed = ''Metrics'',
               id_passed = ''metrics'', icon_passed = ''metrics'',
               type_passed = ''Metrics'' \<rparr>"]
    by simp
qed

text \<open>
  C7. \<open>activeView\<close> is optional and defaults to the empty array: a component mounted
  without it is the component mounted with the empty array, its \<open>activeView\<close> is empty,
  and it renders inactive (the second bound class entry is the empty string) with the
  tooltip text as its \<open>data-title\<close>.
\<close>

theorem activeView_defaults_to_empty:
  "mount (d\<lparr> activeView_passed := None \<rparr>) = mount (d\<lparr> activeView_passed := Some [] \<rparr>)
   \<and> activeView (props_of (snd (mount (d\<lparr> activeView_passed := None \<rparr>)))) = []
   \<and> class_binding (fst (render_pass (snd (mount (d\<lparr> activeView_passed := None \<rparr>)))))
       = [toLowerCase (type_passed d), '''']
   \<and> attr (fst (render_pass (snd (mount (d\<lparr> activeView_passed := None \<rparr>))))) ''data-title''
       = Some (tooltip_passed d)"
  by (simp add: mount_def initProps_def activeView_default_def render_pass_def
        class_binding_render data_title_render)

text \<open>
  C9. Whether the button is active depends on the set of the strings in \<open>activeView\<close> only,
  not on their order or multiplicity: two props values that differ only in \<open>activeView\<close>,
  with the same set of entries, render the same node (class list, attributes, listener and
  child alike).
\<close>

theorem render_depends_on_set_only:
  assumes "set xs = set ys"
  shows "render (p\<lparr> activeView := xs \<rparr>) = render (p\<lparr> activeView := ys \<rparr>)"
  using assms by (simp add: render_def array_includes_set)

theorem render_depends_on_set_only_witness:
  "set [''annotate'', ''metrics''] = set [''metrics'', ''annotate'', ''metrics'']
   \<and> render \<lparr> activeView = [''annotate'', ''metrics''], tooltip = ''Annotate'',
              id_prop = ''annotate'', icon = ''annotate-view'', type_prop = ''Mode'' \<rparr>
     = render \<lparr> activeView = [''metrics'', ''annotate'', ''metrics''], tooltip = ''Annotate'',
                id_prop = ''annotate'', icon = ''annotate-view'', type_prop = ''Mode'' \<rparr>"
proof -
  have h: "set [''annotate'', ''metrics''] = set [''metrics'', ''annotate'', ''metrics'']"
    by auto
  show ?thesis
    using h render_depends_on_set_only
            [OF h, of "\<lparr> activeView = [], tooltip = ''Annotate'', id_prop = ''annotate'',
                          icon = ''annotate-view'', type_prop = ''Mode'' \<rparr>"]
    by simp
qed

end
